theory Spec2Isabelle
  imports Main
begin

section \<open>The iorapd helper library: \<^verbatim>\<open>startop/scripts/iorap/lib/iorapd_utils.py\<close>\<close>

text \<open>
  The module pushes a compiled trace file to a conventional path on the device and
  drives the readahead daemon through three shell functions. Every function of the
  module is embedded as a function on an explicit \<open>world\<close>: the process environment,
  the local file system as far as \<open>os.path.exists\<close> reads it, and the chronological
  trace of the effects the module has caused. A Python exception is a value \<open>Inl e\<close>.
\<close>

subsection \<open>Python built-ins used by the module\<close>

text \<open>
  \<open>str.format\<close>, restricted to what the module's format strings contain: literal
  characters, the automatically numbered replacement field \<open>{}\<close>, and the escapes
  \<open>{{\<close> and \<open>}}\<close>. An argument is inserted as it is and is not scanned again.
  A field with no argument left raises \<open>IndexError\<close>, a lone brace raises
  \<open>ValueError\<close>, surplus arguments are ignored. Named, numbered or converted
  fields do not occur in the module and are mapped to \<open>UnsupportedField\<close>.
\<close>

datatype error = IndexError | ValueError | UnsupportedField

fun format_py :: "string \<Rightarrow> string list \<Rightarrow> error + string" where
  "format_py [] args = Inr []"
| "format_py (c # cs) args =
     (if c = CHR ''{'' then
        (case cs of
           [] \<Rightarrow> Inl ValueError
         | d # ds \<Rightarrow>
             if d = CHR ''}'' then
               (case args of
                  [] \<Rightarrow> Inl IndexError
                | x # xs \<Rightarrow> map_sum id (\<lambda>r. x @ r) (format_py ds xs))
             else if d = CHR ''{'' then map_sum id (\<lambda>r. c # r) (format_py ds args)
             else Inl UnsupportedField)
      else if c = CHR ''}'' then
        (case cs of
           [] \<Rightarrow> Inl ValueError
         | d # ds \<Rightarrow>
             if d = CHR ''}'' then map_sum id (\<lambda>r. c # r) (format_py ds args)
             else Inl ValueError)
      else map_sum id (\<lambda>r. c # r) (format_py cs args))"

text \<open>
  \<open>str\<close> on a Python integer: the decimal digits, most significant first, with a
  leading minus sign for a negative number. CPython from 3.11 on (and the last releases
  of 3.7 to 3.10) refuses to convert an integer of more than \<open>sys.int_max_str_digits\<close>
  digits, 4300 unless the process is configured otherwise, and raises \<open>ValueError\<close>;
  the sign is not counted.
\<close>

definition digit_char :: "nat \<Rightarrow> char" where
  "digit_char d = ''0123456789'' ! (d mod 10)"

fun str_nat :: "nat \<Rightarrow> string" where
  "str_nat n = (if n < 10 then [digit_char n] else str_nat (n div 10) @ [digit_char (n mod 10)])"

declare str_nat.simps [simp del]

definition int_max_str_digits :: nat where
  "int_max_str_digits = 4300"

definition str_py :: "int \<Rightarrow> error + string" where
  "str_py i =
     (let ds = str_nat (nat \<bar>i\<bar>) in
      if int_max_str_digits < length ds then Inl ValueError
      else Inr (if i < 0 then CHR ''-'' # ds else ds))"

text \<open>
  The decimal numeral of a number, stated without \<open>str_nat\<close>: \<open>decimal_digits ds n\<close>
  says that \<open>ds\<close> is a non-empty string of the characters \<open>0\<close> to \<open>9\<close> with no leading
  zero (the one numeral that starts with \<open>0\<close> is \<open>0\<close> itself) whose value, read in
  base ten, is \<open>n\<close>; \<open>is_decimal_of s i\<close> says that \<open>s\<close> is that numeral of \<open>\<bar>i\<bar>\<close>,
  after a minus sign exactly when \<open>i\<close> is negative.
\<close>

definition digit_val :: "char \<Rightarrow> nat" where
  "digit_val c = of_char c - 48"

definition decimal_value :: "string \<Rightarrow> nat" where
  "decimal_value ds = foldl (\<lambda>v c. 10 * v + digit_val c) 0 ds"

definition decimal_digits :: "string \<Rightarrow> nat \<Rightarrow> bool" where
  "decimal_digits ds n =
     (ds \<noteq> [] \<and> set ds \<subseteq> set ''0123456789'' \<and> (hd ds = CHR ''0'') = (ds = ''0'')
      \<and> decimal_value ds = n)"

definition is_decimal_of :: "string \<Rightarrow> int \<Rightarrow> bool" where
  "is_decimal_of s i =
     (if i < 0 then s \<noteq> [] \<and> hd s = CHR ''-'' \<and> decimal_digits (tl s) (nat (- i))
      else decimal_digits s (nat i))"

subsection \<open>The world and the effects of the module\<close>

datatype event =
    Putenv string string
  | Print string
  | Adb_shell_command string
  | Shell_command string
  | Shell_func string string "string list"

record world =
  environ :: "string \<rightharpoonup> string"
  path_exists :: "string \<Rightarrow> bool"
  trace :: "event list"

text \<open>
  Modelled from the spec: \<open>lib.cmd_utils\<close> is imported by the module and is not part
  of the sources at hand. Its three functions are the Command Runner
  (\<open>run(commandString) -> (success, output)\<close>, on the device and locally) and the
  Shell-Function Invoker (\<open>invoke(scriptPath, functionName, args) -> (success, output)\<close>).
  They are parameters of the model: each is an arbitrary function of the world at the
  moment of the call (so its outcome may depend on the environment and on everything
  done before) that returns the pair of the success flag and the captured output.
\<close>

record cmd_utils =
  run_adb_shell_command :: "world \<Rightarrow> string \<Rightarrow> bool \<times> string"
  run_shell_command :: "world \<Rightarrow> string \<Rightarrow> bool \<times> string"
  run_shell_func :: "world \<Rightarrow> string \<Rightarrow> string \<Rightarrow> string list \<Rightarrow> bool \<times> string"

definition emit :: "event \<Rightarrow> world \<Rightarrow> world" where
  "emit e w = w\<lparr>trace := trace w @ [e]\<rparr>"

definition os_putenv :: "string \<Rightarrow> string \<Rightarrow> world \<Rightarrow> world" where
  "os_putenv k v w = emit (Putenv k v) (w\<lparr>environ := (environ w)(k \<mapsto> v)\<rparr>)"

definition print_py :: "string \<Rightarrow> world \<Rightarrow> world" where
  "print_py s w = emit (Print s) w"

definition os_path_exists :: "string \<Rightarrow> world \<Rightarrow> bool" where
  "os_path_exists p w = path_exists w p"

definition call_adb_shell_command ::
    "cmd_utils \<Rightarrow> string \<Rightarrow> world \<Rightarrow> (bool \<times> string) \<times> world" where
  "call_adb_shell_command cu cmd w =
     (run_adb_shell_command cu w cmd, emit (Adb_shell_command cmd) w)"

definition call_shell_command ::
    "cmd_utils \<Rightarrow> string \<Rightarrow> world \<Rightarrow> (bool \<times> string) \<times> world" where
  "call_shell_command cu cmd w =
     (run_shell_command cu w cmd, emit (Shell_command cmd) w)"

definition call_shell_func ::
    "cmd_utils \<Rightarrow> string \<Rightarrow> string \<Rightarrow> string list \<Rightarrow> world \<Rightarrow> (bool \<times> string) \<times> world" where
  "call_shell_func cu script name args w =
     (run_shell_func cu w script name args, emit (Shell_func script name args) w)"

subsection \<open>The module\<close>

definition IORAPD_DATA_PATH :: string where
  "IORAPD_DATA_PATH = ''/data/misc/iorapd''"

text \<open>
  \<open>_iorapd_path_to_data_file\<close> (an Isabelle name cannot start with an underscore).
\<close>

definition iorapd_path_to_data_file ::
    "string \<Rightarrow> string \<Rightarrow> string \<Rightarrow> world \<Rightarrow> (error + string) \<times> world" where
  "iorapd_path_to_data_file package activity suffix w =
     (format_py ''{}/{}%2F{}.{}'' [IORAPD_DATA_PATH, package, activity, suffix], w)"

definition iorapd_compiler_install_trace_file ::
    "cmd_utils \<Rightarrow> string \<Rightarrow> string \<Rightarrow> string \<Rightarrow> world \<Rightarrow> (error + bool) \<times> world" where
  \<open>iorapd_compiler_install_trace_file cu package activity input_file w =
     (case iorapd_path_to_data_file package activity ''compiled_trace.pb'' w of
        (Inl e, w1) \<Rightarrow> (Inl e, w1)
      | (Inr compiled_path, w1) \<Rightarrow>
          if \<not> os_path_exists input_file w1 then
            (case format_py ''Error: File {} does not exist'' [input_file] of
               Inl e \<Rightarrow> (Inl e, w1)
             | Inr msg \<Rightarrow> (Inr False, print_py msg w1))
          else
            (case format_py ''mkdir -p "$(dirname "{}")"'' [compiled_path] of
               Inl e \<Rightarrow> (Inl e, w1)
             | Inr mkdir_cmd \<Rightarrow>
                 (case call_adb_shell_command cu mkdir_cmd w1 of
                    ((passed, _), w2) \<Rightarrow>
                      if \<not> passed then (Inr False, w2)
                      else
                        (case format_py ''adb push "{}" "{}"'' [input_file, compiled_path] of
                           Inl e \<Rightarrow> (Inl e, w2)
                         | Inr push_cmd \<Rightarrow>
                             (case call_shell_command cu push_cmd w2 of
                                ((passed, _), w3) \<Rightarrow> (Inr passed, w3))))))\<close>

text \<open>
  \<open>IORAP_COMMON_BASH_SCRIPT\<close> is computed when the module is loaded, from the place of
  the file on disk; it is a parameter of the three functions that use it.
\<close>

definition wait_for_iorapd_finish ::
    "cmd_utils \<Rightarrow> string \<Rightarrow> string \<Rightarrow> string \<Rightarrow> int \<Rightarrow> bool \<Rightarrow> string \<Rightarrow> world
       \<Rightarrow> (error + bool) \<times> world" where
  "wait_for_iorapd_finish cu IORAP_COMMON_BASH_SCRIPT package activity timeout debug
       logcat_timestamp w =
     (let w1 = (if debug then os_putenv ''verbose'' ''y'' w else w) in
      case str_py timeout of
        Inl e \<Rightarrow> (Inl e, w1)
      | Inr timeout_str \<Rightarrow>
          (case call_shell_func cu IORAP_COMMON_BASH_SCRIPT
                  ''iorapd_readahead_wait_until_finished''
                  [package, activity, logcat_timestamp, timeout_str] w1 of
             ((passed, _), w2) \<Rightarrow> (Inr passed, w2)))"

definition enable_iorapd_readahead :: "cmd_utils \<Rightarrow> string \<Rightarrow> world \<Rightarrow> bool \<times> world" where
  "enable_iorapd_readahead cu IORAP_COMMON_BASH_SCRIPT w =
     (case call_shell_func cu IORAP_COMMON_BASH_SCRIPT ''iorapd_readahead_enable'' [] w of
        ((passed, _), w1) \<Rightarrow> (passed, w1))"

definition disable_iorapd_readahead :: "cmd_utils \<Rightarrow> string \<Rightarrow> world \<Rightarrow> bool \<times> world" where
  "disable_iorapd_readahead cu IORAP_COMMON_BASH_SCRIPT w =
     (case call_shell_func cu IORAP_COMMON_BASH_SCRIPT ''iorapd_readahead_disable'' [] w of
        ((passed, _), w1) \<Rightarrow> (passed, w1))"

subsection \<open>Observations on a trace\<close>

text \<open>
  The calls of the Command Runner in a trace (the remote commands: the directory is
  created through \<open>run_adb_shell_command\<close>, the file is pushed through
  \<open>run_shell_command\<close>), the pushes alone, and the calls of the Shell-Function Invoker
  with their function name and arguments.
\<close>

fun command_calls :: "event list \<Rightarrow> string list" where
  "command_calls [] = []"
| "command_calls (Adb_shell_command c # es) = c # command_calls es"
| "command_calls (Shell_command c # es) = c # command_calls es"
| "command_calls (_ # es) = command_calls es"

fun push_calls :: "event list \<Rightarrow> string list" where
  "push_calls [] = []"
| "push_calls (Shell_command c # es) = c # push_calls es"
| "push_calls (_ # es) = push_calls es"

fun func_calls :: "event list \<Rightarrow> (string \<times> string list) list" where
  "func_calls [] = []"
| "func_calls (Shell_func s f args # es) = (f, args) # func_calls es"
| "func_calls (_ # es) = func_calls es"

text \<open>Sample collaborators and a sample world, for concrete runs.\<close>

definition const_cmd_utils :: "bool \<Rightarrow> bool \<Rightarrow> bool \<Rightarrow> cmd_utils" where
  "const_cmd_utils mk push func =
     \<lparr>run_adb_shell_command = (\<lambda>w cmd. (mk, ''adb shell output'')),
      run_shell_command = (\<lambda>w cmd. (push, ''shell output'')),
      run_shell_func = (\<lambda>w script name args. (func, ''function output''))\<rparr>"

definition world0 :: "string list \<Rightarrow> world" where
  "world0 files = \<lparr>environ = Map.empty, path_exists = (\<lambda>p. p \<in> set files), trace = []\<rparr>"

section \<open>Properties\<close>

subsection \<open>Facts about the built-ins and the observations\<close>

lemma format_path:
  "format_py ''{}/{}%2F{}.{}'' [r, p, a, s] = Inr (r @ ''/'' @ p @ ''%2F'' @ a @ ''.'' @ s)"
  by simp

lemma format_error:
  \<open>format_py ''Error: File {} does not exist'' [f] =
     Inr (''Error: File '' @ f @ '' does not exist'')\<close>
  by simp

lemma format_mkdir:
  \<open>format_py ''mkdir -p "$(dirname "{}")"'' [p] = Inr (''mkdir -p "$(dirname "'' @ p @ ''")"'')\<close>
  by simp

lemma format_push:
  \<open>format_py ''adb push "{}" "{}"'' [f, p] =
     Inr (''adb push "'' @ f @ ''" "'' @ p @ ''"'')\<close>
  by simp

text \<open>The error branches of \<open>format_py\<close> are live, and an argument is not scanned again.\<close>

lemma format_py_examples:
  "format_py ''{}{}'' [''a''] = Inl IndexError"
  "format_py ''{'' [''a''] = Inl ValueError"
  "format_py ''a}b'' [''a''] = Inl ValueError"
  "format_py ''{0}'' [''a''] = Inl UnsupportedField"
  "format_py ''{{{}}}'' [''{}''] = Inr ''{{}}''"
  "format_py ''x'' [''a'', ''b''] = Inr ''x''"
  by simp_all

lemma digit_char_less: "d < 10 \<Longrightarrow>
    digit_val (digit_char d) = d \<and> (digit_char d = CHR ''0'') = (d = 0)"
proof -
  assume "d < 10"
  then have "d = 0 \<or> d = 1 \<or> d = 2 \<or> d = 3 \<or> d = 4 \<or> d = 5 \<or> d = 6 \<or> d = 7 \<or> d = 8 \<or> d = 9"
    by arith
  then show ?thesis
    by (elim disjE) (simp_all add: digit_char_def digit_val_def)
qed

lemma digit_char_in: "digit_char d \<in> set ''0123456789''"
  unfolding digit_char_def by (rule nth_mem) simp

lemma digit_val_in:
  assumes "c \<in> set ''0123456789''"
  shows "digit_val c < 10 \<and> digit_char (digit_val c) = c"
proof -
  from assms have "c = CHR ''0'' \<or> c = CHR ''1'' \<or> c = CHR ''2'' \<or> c = CHR ''3''
      \<or> c = CHR ''4'' \<or> c = CHR ''5'' \<or> c = CHR ''6'' \<or> c = CHR ''7'' \<or> c = CHR ''8''
      \<or> c = CHR ''9''"
    by simp
  then show ?thesis
    by (elim disjE) (simp_all add: digit_char_def digit_val_def)
qed

lemma decimal_value_snoc: "decimal_value (ds @ [c]) = 10 * decimal_value ds + digit_val c"
  by (simp add: decimal_value_def)

lemma str_nat_small: "n < 10 \<Longrightarrow> str_nat n = [digit_char n]"
  by (subst str_nat.simps) simp

lemma str_nat_large:
  "10 \<le> n \<Longrightarrow> str_nat n = str_nat (n div 10) @ [digit_char (n mod 10)]"
  by (subst str_nat.simps) simp

lemma str_nat_nonempty: "str_nat n \<noteq> []"
  by (cases "n < 10") (simp_all add: str_nat_small str_nat_large)

text \<open>
  \<open>str_nat\<close> writes the decimal numeral of \<open>n\<close>, and it is the only string that is one:
  the numeral of a number is unique.
\<close>

lemma str_nat_decimal_digits: "decimal_digits (str_nat n) n"
proof (induction n rule: str_nat.induct)
  case (1 n)
  show ?case
  proof (cases "n < 10")
    case True
    then show ?thesis
      using digit_char_less [of n] digit_char_in [of n]
      by (simp add: str_nat_small decimal_digits_def decimal_value_def)
  next
    case False
    with 1 have ih: "decimal_digits (str_nat (n div 10)) (n div 10)" by simp
    from False have pos: "n div 10 \<noteq> 0" by simp
    have ne: "str_nat (n div 10) \<noteq> []" by (rule str_nat_nonempty)
    have "hd (str_nat (n div 10)) \<noteq> CHR ''0''"
    proof
      assume "hd (str_nat (n div 10)) = CHR ''0''"
      with ih have "str_nat (n div 10) = ''0''" by (simp add: decimal_digits_def)
      with ih have "n div 10 = 0" by (simp add: decimal_digits_def decimal_value_def digit_val_def)
      with pos show False by simp
    qed
    with ih ne False digit_char_less [of "n mod 10"] digit_char_in [of "n mod 10"]
    show ?thesis
      by (simp add: str_nat_large decimal_digits_def decimal_value_snoc)
  qed
qed

lemma decimal_digits_unique: "decimal_digits ds n \<Longrightarrow> ds = str_nat n"
proof (induction ds arbitrary: n rule: rev_induct)
  case Nil
  then show ?case by (simp add: decimal_digits_def)
next
  case (snoc c xs)
  from snoc.prems have c: "c \<in> set ''0123456789''" and xs: "set xs \<subseteq> set ''0123456789''"
    and n: "n = 10 * decimal_value xs + digit_val c"
    and lead: "(hd (xs @ [c]) = CHR ''0'') = (xs @ [c] = ''0'')"
    by (simp_all add: decimal_digits_def decimal_value_snoc)
  note dc = digit_val_in [OF c]
  show ?case
  proof (cases xs)
    case Nil
    with n dc show ?thesis by (simp add: decimal_value_def str_nat_small)
  next
    case (Cons y ys)
    with lead have y: "y \<noteq> CHR ''0''" by auto
    with Cons xs have dd: "decimal_digits xs (decimal_value xs)"
      by (simp add: decimal_digits_def)
    then have eq: "xs = str_nat (decimal_value xs)" by (rule snoc.IH)
    have "decimal_value xs \<noteq> 0"
    proof
      assume "decimal_value xs = 0"
      with eq have "xs = ''0''" by (simp add: str_nat_small digit_char_def)
      with Cons y show False by simp
    qed
    with n dc have "10 \<le> n" "n div 10 = decimal_value xs" "n mod 10 = digit_val c"
      by simp_all
    with eq dc show ?thesis by (simp add: str_nat_large)
  qed
qed

lemma decimal_digits_iff: "decimal_digits ds n \<longleftrightarrow> ds = str_nat n"
  using decimal_digits_unique str_nat_decimal_digits by blast

text \<open>The number of digits: \<open>n\<close> has more than \<open>k\<close> digits exactly from \<open>10 ^ k\<close> on.\<close>

lemma length_str_nat_gt: "10 ^ k \<le> n \<Longrightarrow> k < length (str_nat n)"
proof (induction k arbitrary: n)
  case 0
  from str_nat_nonempty [of n] show ?case by simp
next
  case (Suc k)
  then have "10 * 10 ^ k \<le> n" by simp
  then have "10 ^ k \<le> n div 10" by simp
  then have "k < length (str_nat (n div 10))" by (rule Suc.IH)
  moreover from \<open>10 * 10 ^ k \<le> n\<close> have "10 \<le> n"
    using one_le_power [of "10::nat" k] by linarith
  ultimately show ?case by (simp add: str_nat_large)
qed

lemma length_str_nat_le: "n < 10 ^ Suc k \<Longrightarrow> length (str_nat n) \<le> Suc k"
proof (induction k arbitrary: n)
  case 0
  then show ?case by (simp add: str_nat_small)
next
  case (Suc k)
  show ?case
  proof (cases "n < 10")
    case True
    then show ?thesis by (simp add: str_nat_small)
  next
    case False
    from Suc.prems have "n div 10 < 10 ^ Suc k" by simp
    then have "length (str_nat (n div 10)) \<le> Suc k" by (rule Suc.IH)
    with False show ?thesis by (simp add: str_nat_large)
  qed
qed

lemma int_max_str_digits_Suc: "int_max_str_digits = Suc 4299"
  by (simp add: int_max_str_digits_def)

text \<open>
  \<open>str_py\<close> returns the decimal numeral of every integer below \<open>10 ^ 4300\<close> in absolute
  value, and raises from there on.
\<close>

lemma str_py_returns:
  assumes "\<bar>i\<bar> < 10 ^ int_max_str_digits"
  shows "str_py i = Inr (if i < 0 then CHR ''-'' # str_nat (nat \<bar>i\<bar>) else str_nat (nat \<bar>i\<bar>))"
proof -
  from assms have "int (nat \<bar>i\<bar>) < int (10 ^ int_max_str_digits)" by simp
  then have "nat \<bar>i\<bar> < 10 ^ int_max_str_digits" by (simp only: of_nat_less_iff)
  then have "length (str_nat (nat \<bar>i\<bar>)) \<le> int_max_str_digits"
    unfolding int_max_str_digits_Suc by (rule length_str_nat_le)
  then show ?thesis by (simp add: str_py_def Let_def)
qed

lemma str_py_raises:
  assumes "10 ^ int_max_str_digits \<le> \<bar>i\<bar>"
  shows "str_py i = Inl ValueError"
proof -
  from assms have "int (10 ^ int_max_str_digits) \<le> int (nat \<bar>i\<bar>)" by simp
  then have "10 ^ int_max_str_digits \<le> nat \<bar>i\<bar>" by (simp only: of_nat_le_iff)
  then have "int_max_str_digits < length (str_nat (nat \<bar>i\<bar>))" by (rule length_str_nat_gt)
  then show ?thesis by (simp add: str_py_def Let_def)
qed

lemma is_decimal_of_iff:
  "is_decimal_of s i \<longleftrightarrow> s = (if i < 0 then CHR ''-'' # str_nat (nat \<bar>i\<bar>) else str_nat (nat \<bar>i\<bar>))"
proof (cases "i < 0")
  case True
  then have "nat (- i) = nat \<bar>i\<bar>" by simp
  with True show ?thesis
    by (cases s) (auto simp: is_decimal_of_def decimal_digits_iff)
next
  case False
  then have "nat i = nat \<bar>i\<bar>" by simp
  with False show ?thesis
    by (simp add: is_decimal_of_def decimal_digits_iff)
qed

lemma str_py_decimal:
  "\<bar>i\<bar> < 10 ^ int_max_str_digits \<Longrightarrow> \<exists>s. str_py i = Inr s \<and> is_decimal_of s i"
  by (simp add: str_py_returns is_decimal_of_iff)


lemma is_decimal_of_examples:
  "is_decimal_of ''30'' 30" "is_decimal_of ''-15'' (- 15)" "is_decimal_of ''0'' 0"
  "\<not> is_decimal_of ''030'' 30" "\<not> is_decimal_of '''' 0" "\<not> is_decimal_of ''-0'' 0"
  "\<not> is_decimal_of ''31'' 30" "\<not> is_decimal_of ''15'' (- 15)" "\<not> is_decimal_of ''3x'' 30"
  by (simp_all add: is_decimal_of_def decimal_digits_def decimal_value_def digit_val_def)

lemma command_calls_append: "command_calls (xs @ ys) = command_calls xs @ command_calls ys"
  by (induction xs rule: command_calls.induct) simp_all

lemma push_calls_append: "push_calls (xs @ ys) = push_calls xs @ push_calls ys"
  by (induction xs rule: push_calls.induct) simp_all

lemma func_calls_append: "func_calls (xs @ ys) = func_calls xs @ func_calls ys"
  by (induction xs rule: func_calls.induct) simp_all

subsection \<open>What each function of the module computes\<close>

lemma path_to_data_file_eq:
  "iorapd_path_to_data_file p a s w =
     (Inr (''/data/misc/iorapd/'' @ p @ ''%2F'' @ a @ ''.'' @ s), w)"
  by (simp add: iorapd_path_to_data_file_def IORAPD_DATA_PATH_def)

lemma path_example:
  "fst (iorapd_path_to_data_file ''com.example.app'' ''MainActivity'' ''compiled_trace.pb'' w) =
     Inr ''/data/misc/iorapd/com.example.app%2FMainActivity.compiled_trace.pb''"
  by (simp add: path_to_data_file_eq)

lemma install_missing:
  assumes "\<not> path_exists w input_file"
  shows "iorapd_compiler_install_trace_file cu package activity input_file w =
           (Inr False,
            w\<lparr>trace := trace w @ [Print (''Error: File '' @ input_file @ '' does not exist'')]\<rparr>)"
  using assms
  by (simp add: iorapd_compiler_install_trace_file_def path_to_data_file_eq os_path_exists_def
        format_error print_py_def emit_def del: format_py.simps)

lemma install_present:
  assumes "path_exists w input_file"
  shows \<open>iorapd_compiler_install_trace_file cu package activity input_file w =
     (let compiled_path =
            ''/data/misc/iorapd/'' @ package @ ''%2F'' @ activity @ ''.compiled_trace.pb'';
          mkdir_cmd = ''mkdir -p "$(dirname "'' @ compiled_path @ ''")"'';
          push_cmd = ''adb push "'' @ input_file @ ''" "'' @ compiled_path @ ''"'';
          w2 = w\<lparr>trace := trace w @ [Adb_shell_command mkdir_cmd]\<rparr>
      in if fst (run_adb_shell_command cu w mkdir_cmd)
         then (Inr (fst (run_shell_command cu w2 push_cmd)),
               w\<lparr>trace := trace w @ [Adb_shell_command mkdir_cmd, Shell_command push_cmd]\<rparr>)
         else (Inr False, w2))\<close>
  using assms
  by (simp add: iorapd_compiler_install_trace_file_def path_to_data_file_eq os_path_exists_def
        format_mkdir format_push call_adb_shell_command_def call_shell_command_def emit_def
        Let_def split: prod.splits del: format_py.simps)

lemma wait_eq:
  "wait_for_iorapd_finish cu S p a t d ts w =
     (let w1 = (if d then w\<lparr>environ := (environ w)(''verbose'' \<mapsto> ''y''),
                            trace := trace w @ [Putenv ''verbose'' ''y'']\<rparr> else w)
      in case str_py t of
           Inl e \<Rightarrow> (Inl e, w1)
         | Inr s \<Rightarrow>
             (Inr (fst (run_shell_func cu w1 S ''iorapd_readahead_wait_until_finished''
                          [p, a, ts, s])),
              w1\<lparr>trace := trace w1 @
                [Shell_func S ''iorapd_readahead_wait_until_finished'' [p, a, ts, s]]\<rparr>))"
  by (simp add: wait_for_iorapd_finish_def call_shell_func_def os_putenv_def emit_def Let_def
        split: prod.splits sum.splits)

lemma wait_raises:
  assumes "str_py t = Inl e"
  shows "fst (wait_for_iorapd_finish cu S p a t d ts w) = Inl e
    \<and> func_calls (trace (snd (wait_for_iorapd_finish cu S p a t d ts w))) = func_calls (trace w)"
  by (simp add: wait_eq assms func_calls_append)

lemma enable_eq:
  "enable_iorapd_readahead cu S w =
     (fst (run_shell_func cu w S ''iorapd_readahead_enable'' []),
      w\<lparr>trace := trace w @ [Shell_func S ''iorapd_readahead_enable'' []]\<rparr>)"
  by (simp add: enable_iorapd_readahead_def call_shell_func_def emit_def split: prod.splits)

lemma disable_eq:
  "disable_iorapd_readahead cu S w =
     (fst (run_shell_func cu w S ''iorapd_readahead_disable'' []),
      w\<lparr>trace := trace w @ [Shell_func S ''iorapd_readahead_disable'' []]\<rparr>)"
  by (simp add: disable_iorapd_readahead_def call_shell_func_def emit_def split: prod.splits)

subsection \<open>The path of a data file\<close>

text \<open>
  C1: for every package \<open>p\<close>, activity \<open>a\<close> and suffix \<open>s\<close> the path deriver returns
  exactly \<open>/data/misc/iorapd/\<close> followed by \<open>p\<close>, the three characters \<open>%2F\<close>, \<open>a\<close>, a
  dot and \<open>s\<close>; for the suffix \<open>compiled_trace.pb\<close> this is
  \<open>/data/misc/iorapd/<p>%2F<a>.compiled_trace.pb\<close>.
\<close>

theorem path_to_data_file_exact:
  "fst (iorapd_path_to_data_file p a s w) =
     Inr (''/data/misc/iorapd/'' @ p @ ''%2F'' @ a @ ''.'' @ s)
   \<and> fst (iorapd_path_to_data_file p a ''compiled_trace.pb'' w) =
     Inr (''/data/misc/iorapd/'' @ p @ ''%2F'' @ a @ ''.compiled_trace.pb'')"
  by (simp add: path_to_data_file_eq)

text \<open>
  C8: the path deriver is deterministic and free of side effects: it never raises (the
  result is always a string), it returns the world it was called in, and its result is
  the same in every world, so two calls on equal package, activity and suffix return
  equal strings.
\<close>

theorem path_to_data_file_pure:
  "(\<exists>r. fst (iorapd_path_to_data_file p a s w) = Inr r)
   \<and> snd (iorapd_path_to_data_file p a s w) = w
   \<and> fst (iorapd_path_to_data_file p a s w) = fst (iorapd_path_to_data_file p a s w')"
  by (simp add: path_to_data_file_eq)

subsection \<open>Installing a compiled trace file\<close>

text \<open>
  C3: when the local file does not exist, \<open>iorapd_compiler_install_trace_file\<close> returns
  \<open>False\<close>, calls the Command Runner not at all (neither the directory creation nor the
  push is issued), and prints one line, \<open>Error: File <path> does not exist\<close>, that
  names the missing path.
\<close>

theorem install_missing_file:
  assumes "\<not> path_exists w input_file"
  shows "fst (iorapd_compiler_install_trace_file cu package activity input_file w) = Inr False
    \<and> command_calls (trace (snd (iorapd_compiler_install_trace_file cu package activity
          input_file w))) = command_calls (trace w)
    \<and> trace (snd (iorapd_compiler_install_trace_file cu package activity input_file w))
        = trace w @ [Print (''Error: File '' @ input_file @ '' does not exist'')]"
  by (simp add: install_missing [OF assms] command_calls_append)

theorem install_missing_file_witness:
  "\<not> path_exists (world0 []) ''/tmp/trace.pb''
   \<and> fst (iorapd_compiler_install_trace_file (const_cmd_utils True True True) ''pkg'' ''act''
         ''/tmp/trace.pb'' (world0 [])) = Inr False
   \<and> command_calls (trace (snd (iorapd_compiler_install_trace_file (const_cmd_utils True True True)
         ''pkg'' ''act'' ''/tmp/trace.pb'' (world0 [])))) = []
   \<and> trace (snd (iorapd_compiler_install_trace_file (const_cmd_utils True True True) ''pkg'' ''act''
         ''/tmp/trace.pb'' (world0 []))) = [Print ''Error: File /tmp/trace.pb does not exist'']"
proof -
  have h: "\<not> path_exists (world0 []) ''/tmp/trace.pb''"
    by (simp add: world0_def)
  show ?thesis
    using h install_missing_file [OF h, of "const_cmd_utils True True True" "''pkg''" "''act''"]
    by (simp add: world0_def)
qed

text \<open>
  C4: when the local file exists and the command that creates the remote directory
  reports failure, the function returns \<open>False\<close> and the push is never issued: the
  only effect is the one \<open>mkdir\<close> command.
\<close>

theorem install_mkdir_failure:
  assumes "path_exists w input_file"
    and \<open>\<not> fst (run_adb_shell_command cu w
            (''mkdir -p "$(dirname "/data/misc/iorapd/'' @ package @ ''%2F'' @ activity
               @ ''.compiled_trace.pb")"''))\<close>
  shows \<open>fst (iorapd_compiler_install_trace_file cu package activity input_file w) = Inr False
    \<and> push_calls (trace (snd (iorapd_compiler_install_trace_file cu package activity
          input_file w))) = push_calls (trace w)
    \<and> trace (snd (iorapd_compiler_install_trace_file cu package activity input_file w))
        = trace w @ [Adb_shell_command
            (''mkdir -p "$(dirname "/data/misc/iorapd/'' @ package @ ''%2F'' @ activity
               @ ''.compiled_trace.pb")"'')]\<close>
  using assms(2) by (simp add: install_present [OF assms(1)] push_calls_append Let_def)

theorem install_mkdir_failure_witness:
  \<open>path_exists (world0 [''/tmp/trace.pb'']) ''/tmp/trace.pb''
   \<and> \<not> fst (run_adb_shell_command (const_cmd_utils False True True) (world0 [''/tmp/trace.pb''])
            ''mkdir -p "$(dirname "/data/misc/iorapd/pkg%2Fact.compiled_trace.pb")"'')
   \<and> fst (iorapd_compiler_install_trace_file (const_cmd_utils False True True) ''pkg'' ''act''
         ''/tmp/trace.pb'' (world0 [''/tmp/trace.pb''])) = Inr False
   \<and> push_calls (trace (snd (iorapd_compiler_install_trace_file (const_cmd_utils False True True)
         ''pkg'' ''act'' ''/tmp/trace.pb'' (world0 [''/tmp/trace.pb''])))) = []
   \<and> trace (snd (iorapd_compiler_install_trace_file (const_cmd_utils False True True) ''pkg'' ''act''
         ''/tmp/trace.pb'' (world0 [''/tmp/trace.pb''])))
       = [Adb_shell_command ''mkdir -p "$(dirname "/data/misc/iorapd/pkg%2Fact.compiled_trace.pb")"'']\<close>
proof -
  have h1: "path_exists (world0 [''/tmp/trace.pb'']) ''/tmp/trace.pb''"
    by (simp add: world0_def)
  have h2: \<open>\<not> fst (run_adb_shell_command (const_cmd_utils False True True)
            (world0 [''/tmp/trace.pb''])
            (''mkdir -p "$(dirname "/data/misc/iorapd/'' @ ''pkg'' @ ''%2F'' @ ''act''
               @ ''.compiled_trace.pb")"''))\<close>
    by (simp add: const_cmd_utils_def)
  show ?thesis
    using h1 h2 install_mkdir_failure [OF h1 h2]
    by (simp add: world0_def)
qed

text \<open>
  C5: when the local file exists and the directory creation succeeds, the function
  returns exactly the success flag of the push call, whatever that flag is; the push
  is issued after the \<open>mkdir\<close> command and its captured output is dropped.
\<close>

theorem install_returns_push_result:
  assumes "path_exists w input_file"
    and \<open>fst (run_adb_shell_command cu w
            (''mkdir -p "$(dirname "/data/misc/iorapd/'' @ package @ ''%2F'' @ activity
               @ ''.compiled_trace.pb")"''))\<close>
  shows \<open>fst (iorapd_compiler_install_trace_file cu package activity input_file w) =
      Inr (fst (run_shell_command cu
        (w\<lparr>trace := trace w @ [Adb_shell_command
            (''mkdir -p "$(dirname "/data/misc/iorapd/'' @ package @ ''%2F'' @ activity
               @ ''.compiled_trace.pb")"'')]\<rparr>)
        (''adb push "'' @ input_file @ ''" "/data/misc/iorapd/'' @ package @ ''%2F'' @ activity
               @ ''.compiled_trace.pb"'')))
    \<and> trace (snd (iorapd_compiler_install_trace_file cu package activity input_file w))
        = trace w @ [Adb_shell_command
            (''mkdir -p "$(dirname "/data/misc/iorapd/'' @ package @ ''%2F'' @ activity
               @ ''.compiled_trace.pb")"''),
           Shell_command
            (''adb push "'' @ input_file @ ''" "/data/misc/iorapd/'' @ package @ ''%2F'' @ activity
               @ ''.compiled_trace.pb"'')]\<close>
  using assms(2) by (simp add: install_present [OF assms(1)] Let_def)

theorem install_returns_push_result_witness:
  \<open>path_exists (world0 [''/tmp/trace.pb'']) ''/tmp/trace.pb''
   \<and> fst (run_adb_shell_command (const_cmd_utils True True True) (world0 [''/tmp/trace.pb''])
            ''mkdir -p "$(dirname "/data/misc/iorapd/pkg%2Fact.compiled_trace.pb")"'')
   \<and> fst (run_adb_shell_command (const_cmd_utils True False True) (world0 [''/tmp/trace.pb''])
            ''mkdir -p "$(dirname "/data/misc/iorapd/pkg%2Fact.compiled_trace.pb")"'')
   \<and> fst (iorapd_compiler_install_trace_file (const_cmd_utils True True True) ''pkg'' ''act''
         ''/tmp/trace.pb'' (world0 [''/tmp/trace.pb''])) = Inr True
   \<and> fst (iorapd_compiler_install_trace_file (const_cmd_utils True False True) ''pkg'' ''act''
         ''/tmp/trace.pb'' (world0 [''/tmp/trace.pb''])) = Inr False
   \<and> trace (snd (iorapd_compiler_install_trace_file (const_cmd_utils True False True) ''pkg'' ''act''
         ''/tmp/trace.pb'' (world0 [''/tmp/trace.pb''])))
       = [Adb_shell_command ''mkdir -p "$(dirname "/data/misc/iorapd/pkg%2Fact.compiled_trace.pb")"'',
          Shell_command ''adb push "/tmp/trace.pb" "/data/misc/iorapd/pkg%2Fact.compiled_trace.pb"'']\<close>
proof -
  have h1: "path_exists (world0 [''/tmp/trace.pb'']) ''/tmp/trace.pb''"
    by (simp add: world0_def)
  have h2: \<open>fst (run_adb_shell_command (const_cmd_utils True b True)
            (world0 [''/tmp/trace.pb''])
            (''mkdir -p "$(dirname "/data/misc/iorapd/'' @ ''pkg'' @ ''%2F'' @ ''act''
               @ ''.compiled_trace.pb")"''))\<close> for b
    by (simp add: const_cmd_utils_def)
  show ?thesis
    using h1 h2 [of True] h2 [of False]
      install_returns_push_result [OF h1 h2 [of True]]
      install_returns_push_result [OF h1 h2 [of False]]
    by (simp add: world0_def const_cmd_utils_def)
qed

subsection \<open>The readahead session\<close>



text \<open>
  C9: \<open>enable_iorapd_readahead\<close> and \<open>disable_iorapd_readahead\<close> each make exactly one
  call of the Shell-Function Invoker, with the empty argument list, change nothing
  else, and return the success flag of that call as it is, whatever the call returns;
  the captured output is dropped.
\<close>

theorem readahead_switch_delegates:
  "enable_iorapd_readahead cu S w =
     (fst (run_shell_func cu w S ''iorapd_readahead_enable'' []),
      w\<lparr>trace := trace w @ [Shell_func S ''iorapd_readahead_enable'' []]\<rparr>)
   \<and> disable_iorapd_readahead cu S w =
     (fst (run_shell_func cu w S ''iorapd_readahead_disable'' []),
      w\<lparr>trace := trace w @ [Shell_func S ''iorapd_readahead_disable'' []]\<rparr>)"
  by (simp add: enable_eq disable_eq)

text \<open>
  C6, for the timeouts that \<open>str\<close> converts: for every package, activity, debug flag and
  logcat timestamp, and every timeout below \<open>10 ^ 4300\<close> in absolute value,
  \<open>wait_for_iorapd_finish\<close> calls the wait function with the positional arguments
  package, activity, logcat timestamp and the decimal numeral of the timeout, in this
  order, and returns the success flag of that call.
\<close>

theorem wait_argument_order:
  assumes "\<bar>timeout\<bar> < 10 ^ 4300"
  shows "\<exists>s. is_decimal_of s timeout
    \<and> func_calls (trace (snd (wait_for_iorapd_finish cu S package activity timeout debug
          logcat_timestamp w))) =
        func_calls (trace w) @ [(''iorapd_readahead_wait_until_finished'',
          [package, activity, logcat_timestamp, s])]
    \<and> fst (wait_for_iorapd_finish cu S package activity timeout debug logcat_timestamp w) =
        Inr (fst (run_shell_func cu (if debug then os_putenv ''verbose'' ''y'' w else w) S
          ''iorapd_readahead_wait_until_finished''
          [package, activity, logcat_timestamp, s]))"
proof -
  from assms have "\<bar>timeout\<bar> < 10 ^ int_max_str_digits"
    by (simp only: int_max_str_digits_def)
  then obtain s where s: "str_py timeout = Inr s" and dec: "is_decimal_of s timeout"
    using str_py_decimal by blast
  have "func_calls (trace (snd (wait_for_iorapd_finish cu S package activity timeout debug
          logcat_timestamp w))) =
        func_calls (trace w) @ [(''iorapd_readahead_wait_until_finished'',
          [package, activity, logcat_timestamp, s])]"
    by (simp add: wait_eq s func_calls_append)
  moreover
  have "fst (wait_for_iorapd_finish cu S package activity timeout debug logcat_timestamp w) =
        Inr (fst (run_shell_func cu (if debug then os_putenv ''verbose'' ''y'' w else w) S
          ''iorapd_readahead_wait_until_finished''
          [package, activity, logcat_timestamp, s]))"
    by (simp add: wait_eq s os_putenv_def emit_def)
  ultimately show ?thesis using dec by blast
qed

theorem wait_argument_order_witness:
  "\<bar>- 30\<bar> < (10::int) ^ 4300
   \<and> func_calls (trace (snd (wait_for_iorapd_finish (const_cmd_utils True True False)
        ''common'' ''pkg'' ''act'' (- 30) True ''ts'' (world0 [])))) =
       [(''iorapd_readahead_wait_until_finished'', [''pkg'', ''act'', ''ts'', ''-30''])]
   \<and> fst (wait_for_iorapd_finish (const_cmd_utils True True False)
        ''common'' ''pkg'' ''act'' (- 30) True ''ts'' (world0 [])) = Inr False"
proof -
  have "(30::int) < 10 ^ 2" by simp
  also have "(10::int) ^ 2 \<le> 10 ^ 4300" by (rule power_increasing) simp_all
  finally have h: "\<bar>- 30\<bar> < (10::int) ^ 4300" by (simp only: abs_minus abs_numeral)
  from wait_argument_order [OF h, of "const_cmd_utils True True False" "''common''" "''pkg''"
      "''act''" True "''ts''" "world0 []"]
  obtain s where dec: "is_decimal_of s (- 30)"
    and calls: "func_calls (trace (snd (wait_for_iorapd_finish (const_cmd_utils True True False)
        ''common'' ''pkg'' ''act'' (- 30) True ''ts'' (world0 [])))) =
       func_calls (trace (world0 [])) @
         [(''iorapd_readahead_wait_until_finished'', [''pkg'', ''act'', ''ts'', s])]"
    and res: "fst (wait_for_iorapd_finish (const_cmd_utils True True False)
        ''common'' ''pkg'' ''act'' (- 30) True ''ts'' (world0 [])) =
       Inr (fst (run_shell_func (const_cmd_utils True True False)
          (if True then os_putenv ''verbose'' ''y'' (world0 []) else world0 []) ''common''
          ''iorapd_readahead_wait_until_finished'' [''pkg'', ''act'', ''ts'', s]))"
    by blast
  have "str_nat 30 = ''30''" by code_simp
  with dec have "s = ''-30''" by (simp add: is_decimal_of_iff)
  with calls res have
    "func_calls (trace (snd (wait_for_iorapd_finish (const_cmd_utils True True False)
        ''common'' ''pkg'' ''act'' (- 30) True ''ts'' (world0 [])))) =
       [(''iorapd_readahead_wait_until_finished'', [''pkg'', ''act'', ''ts'', ''-30''])]"
    "fst (wait_for_iorapd_finish (const_cmd_utils True True False)
        ''common'' ''pkg'' ''act'' (- 30) True ''ts'' (world0 [])) = Inr False"
    by (simp_all add: world0_def const_cmd_utils_def)
  with h show ?thesis by (intro conjI)
qed

text \<open>
  From \<open>10 ^ 4300\<close> on, \<open>str(timeout)\<close> raises \<open>ValueError\<close> and the wait function is
  not called at all, so no argument list is passed: the statement for every timeout
  fails at \<open>10 ^ 4300\<close>.
\<close>

theorem wait_huge_timeout_counterexample:
  "fst (wait_for_iorapd_finish (const_cmd_utils True True True) ''common'' ''pkg'' ''act''
        (10 ^ 4300) False ''ts'' (world0 [])) = Inl ValueError
   \<and> func_calls (trace (snd (wait_for_iorapd_finish (const_cmd_utils True True True) ''common''
        ''pkg'' ''act'' (10 ^ 4300) False ''ts'' (world0 [])))) = []"
proof -
  have "(10::int) ^ int_max_str_digits \<le> \<bar>10 ^ 4300\<bar>"
    by (simp only: int_max_str_digits_def abs_ge_self)
  then have r: "str_py (10 ^ 4300) = Inl ValueError" by (rule str_py_raises)
  have a: "fst (wait_for_iorapd_finish (const_cmd_utils True True True) ''common'' ''pkg''
        ''act'' (10 ^ 4300) False ''ts'' (world0 [])) = Inl ValueError"
    using wait_raises [OF r] by (rule conjunct1)
  have "func_calls (trace (snd (wait_for_iorapd_finish (const_cmd_utils True True True) ''common''
        ''pkg'' ''act'' (10 ^ 4300) False ''ts'' (world0 [])))) = func_calls (trace (world0 []))"
    using wait_raises [OF r] by (rule conjunct2)
  also have "func_calls (trace (world0 [])) = []" by (simp add: world0_def)
  finally show ?thesis using a by (intro conjI)
qed

text \<open>
  C7: with \<open>debug\<close> true, the environment variable \<open>verbose\<close> is set to \<open>y\<close> before the
  wait function is invoked (the world \<open>w1\<close> that the invoker is called in has it, and
  the \<open>Putenv\<close> event precedes the call in the trace), and it is still set in the world
  the function returns: nothing resets it. When \<open>str(timeout)\<close> raises, the variable
  has been set all the same and the invoker is not called.
\<close>

theorem wait_debug_sets_verbose:
  "(let w1 = w\<lparr>environ := (environ w)(''verbose'' \<mapsto> ''y''),
                trace := trace w @ [Putenv ''verbose'' ''y'']\<rparr>;
        name = ''iorapd_readahead_wait_until_finished'';
        r = wait_for_iorapd_finish cu S package activity timeout True logcat_timestamp w
    in environ w1 ''verbose'' = Some ''y''
       \<and> fst r = (case str_py timeout of
                    Inl e \<Rightarrow> Inl e
                  | Inr s \<Rightarrow> Inr (fst (run_shell_func cu w1 S name
                                     [package, activity, logcat_timestamp, s])))
       \<and> trace (snd r) = trace w @ Putenv ''verbose'' ''y'' #
             (case str_py timeout of
                Inl e \<Rightarrow> []
              | Inr s \<Rightarrow> [Shell_func S name [package, activity, logcat_timestamp, s]])
       \<and> environ (snd r) = (environ w)(''verbose'' \<mapsto> ''y'')
       \<and> environ (snd r) ''verbose'' = Some ''y'')"
  by (simp add: wait_eq Let_def split: sum.splits)

text \<open>
  C10: with \<open>debug\<close> false the environment is left as it was (\<open>verbose\<close> is neither
  set nor changed), and the only effect is the one call of the wait function: the
  world returned is the world given, with that call appended to the trace (and with
  nothing appended when \<open>str(timeout)\<close> raises).
\<close>

theorem wait_no_debug_frame:
  "(let name = ''iorapd_readahead_wait_until_finished'';
        r = wait_for_iorapd_finish cu S package activity timeout False logcat_timestamp w
    in environ (snd r) = environ w
       \<and> environ (snd r) ''verbose'' = environ w ''verbose''
       \<and> snd r = w\<lparr>trace := trace w @
             (case str_py timeout of
                Inl e \<Rightarrow> []
              | Inr s \<Rightarrow> [Shell_func S name [package, activity, logcat_timestamp, s]])\<rparr>
       \<and> fst r = (case str_py timeout of
                    Inl e \<Rightarrow> Inl e
                  | Inr s \<Rightarrow> Inr (fst (run_shell_func cu w S name
                                     [package, activity, logcat_timestamp, s]))))"
  by (simp add: wait_eq Let_def split: sum.splits)

end
